theory Spec2Isabelle
  imports Main "HOL-Library.Sublist"
begin

section \<open>The session flow of the face-authentication front end\<close>

text \<open>
  The development embeds three source files: \<^verbatim>\<open>App.jsx\<close> (the view state machine),
  the first \<^verbatim>\<open>CameraInterface\<close> component of \<^verbatim>\<open>src/unnamed/part_000\<close> (camera
  acquisition and face polling) and \<^verbatim>\<open>GestureInterface.jsx\<close> (gesture polling and the
  manual buttons).

  React specifics are written out. A state variable (\<^verbatim>\<open>useState\<close>) has one live value,
  kept in the world record, and every render binds a fresh constant to it. A function
  created during a render therefore sees the value of that render for ever. Both polling
  loops are started from \<^verbatim>\<open>useEffect(..., [])\<close>, which runs once after the first render,
  so the interval callbacks carry the state of the first render in an explicit environment
  record (\<open>camera_env\<close>, \<open>gesture_env\<close>). State setters and refs are shared by all renders.
  A setter called on an unmounted component changes nothing.

  Strings are byte lists; the three emoji of the status messages are their UTF-8 bytes.
  Left out: the JSX, console logging, the CSS filters of \<^verbatim>\<open>enhanceVideoQuality\<close> and the
  pixel arithmetic of \<^verbatim>\<open>enhanceImage\<close>. An \<^verbatim>\<open>async\<close> function is cut at its
  \<^verbatim>\<open>await\<close>: the part before it and the part run at settlement are separate functions,
  except for the acquisition loop, which touches nothing that another event reads and is
  taken in one step against a device that answers each request.
\<close>

subsection \<open>App.jsx\<close>

record user_record =
  name :: string
  email :: string

record app_state =
  currentView :: string
  user :: "user_record option"

definition initial_app :: app_state where
  "initial_app = \<lparr>currentView = ''camera'', user = None\<rparr>"

definition handleLoginSuccess :: "user_record option \<Rightarrow> app_state \<Rightarrow> app_state" where
  "handleLoginSuccess userData a = a\<lparr>user := userData, currentView := ''main''\<rparr>"

definition handleRegisterPrompt :: "app_state \<Rightarrow> app_state" where
  "handleRegisterPrompt a = a\<lparr>currentView := ''gesture''\<rparr>"

definition guest_user :: user_record where
  "guest_user = \<lparr>name = ''Guest'', email = ''guest@example.com''\<rparr>"

definition handleGuestAccess :: "app_state \<Rightarrow> app_state" where
  "handleGuestAccess a = a\<lparr>user := Some guest_user, currentView := ''guest''\<rparr>"

definition handleRegistrationComplete :: "user_record option \<Rightarrow> app_state \<Rightarrow> app_state" where
  "handleRegistrationComplete userData a = a\<lparr>user := userData, currentView := ''main''\<rparr>"

definition handleBackToCamera :: "app_state \<Rightarrow> app_state" where
  "handleBackToCamera a = a\<lparr>currentView := ''camera''\<rparr>"

text \<open>The inline arrow \<^verbatim>\<open>() => setCurrentView('register')\<close> passed to the gesture view.\<close>

definition onRegistrationStart :: "app_state \<Rightarrow> app_state" where
  "onRegistrationStart a = a\<lparr>currentView := ''register''\<rparr>"

text \<open>
  The registration form's button \<^verbatim>\<open>onClick={onGuestAccess}\<close>, whose prop is
  \<^verbatim>\<open>handleGuestAccess\<close>.
\<close>

definition continueAsGuest :: "app_state \<Rightarrow> app_state" where
  "continueAsGuest a = handleGuestAccess a"

datatype component =
  CameraInterface | GestureInterface | RegistrationForm | MainPage | GuestPage | HeadPoseDisplay

text \<open>
  \<^verbatim>\<open>renderView\<close>: the switch on \<^verbatim>\<open>currentView\<close>, the default branch last. The callback
  props are fixed for each branch, and \<^verbatim>\<open>user\<close> is handed to the main and guest pages.
\<close>

definition renderView :: "string \<Rightarrow> component" where
  "renderView v =
     (if v = ''camera'' then CameraInterface
      else if v = ''gesture'' then GestureInterface
      else if v = ''register'' then RegistrationForm
      else if v = ''main'' then MainPage
      else if v = ''guest'' then GuestPage
      else if v = ''health'' then HeadPoseDisplay
      else CameraInterface)"

subsection \<open>What every view component with a camera shares\<close>

type_synonym stream = nat

datatype 'a promise = Resolved 'a | Rejected

record video_element =
  videoWidth :: nat
  srcObject :: "stream option"

text \<open>
  One component instance below \<^verbatim>\<open>App\<close>, followed from its mount to after its unmount:
  \<open>app\<close> is the state of \<^verbatim>\<open>App\<close> that its callback props change, \<open>live\<close> the streams of the
  device whose tracks are running, \<open>videoRef\<close> the video element (\<open>None\<close> once unmounted).
\<close>

record view_world =
  app :: app_state
  mounted :: bool
  message :: "string option"
  streamRef :: "stream option"
  videoRef :: "video_element option"
  live :: "stream list"

text \<open>
  The effect clean-up, the same in all four camera components:
  \<^verbatim>\<open>if (streamRef.current) streamRef.current.getTracks().forEach(track => track.stop())\<close>.
\<close>

definition stopTracks :: "stream option \<Rightarrow> stream list \<Rightarrow> stream list" where
  "stopTracks r ls = (case r of None \<Rightarrow> ls | Some s \<Rightarrow> removeAll s ls)"

definition unmount :: "'a view_world_scheme \<Rightarrow> 'a view_world_scheme" where
  "unmount w = w\<lparr>live := stopTracks (streamRef w) (live w), videoRef := None, mounted := False\<rparr>"

text \<open>
  After a change of \<^verbatim>\<open>currentView\<close>, \<^verbatim>\<open>App\<close> renders again; the instance of component
  type \<open>c\<close> stays when \<^verbatim>\<open>renderView\<close> still yields \<open>c\<close> and is unmounted otherwise.
\<close>

definition rerender :: "component \<Rightarrow> 'a view_world_scheme \<Rightarrow> 'a view_world_scheme" where
  "rerender c w =
     (if mounted w then (if renderView (currentView (app w)) = c then w else unmount w) else w)"

definition setMessage :: "string option \<Rightarrow> 'a view_world_scheme \<Rightarrow> 'a view_world_scheme" where
  "setMessage m w = (if mounted w then w\<lparr>message := m\<rparr> else w)"

definition setCurrentView :: "string \<Rightarrow> 'a view_world_scheme \<Rightarrow> 'a view_world_scheme" where
  "setCurrentView v w = w\<lparr>app := (app w)\<lparr>currentView := v\<rparr>\<rparr>"

text \<open>
  \<^verbatim>\<open>captureFrame\<close>; \<open>pic\<close> is the JPEG payload of the picture the video shows at the call
  (drawing, enhancement and encoding are not modelled).
\<close>

definition captureFrame :: "string \<Rightarrow> 'a view_world_scheme \<Rightarrow> string option" where
  "captureFrame pic w =
     (case videoRef w of
        None \<Rightarrow> None
      | Some video \<Rightarrow>
          if videoWidth video = 0 then None else Some (''data:image/jpeg;base64,'' @ pic))"

text \<open>
  The logout, restart and back buttons all call \<^verbatim>\<open>handleBackToCamera\<close>; \<open>c\<close> is the
  component on screen when the button is pressed.
\<close>

definition backToCamera :: "component \<Rightarrow> 'a view_world_scheme \<Rightarrow> 'a view_world_scheme" where
  "backToCamera c w = rerender c (w\<lparr>app := handleBackToCamera (app w)\<rparr>)"

subsection \<open>CameraInterface: acquisition\<close>

definition emoji_cross :: string where
  "emoji_cross = [CHR 0xE2, CHR 0x9D, CHR 0x8C]"

definition emoji_check :: string where
  "emoji_check = [CHR 0xE2, CHR 0x9C, CHR 0x85]"

definition emoji_arrows :: string where
  "emoji_arrows = [CHR 0xF0, CHR 0x9F, CHR 0x94, CHR 0x84]"

definition accessing_message :: string where
  "accessing_message = emoji_arrows @ '' Accessing camera with optimal settings...''"

definition camera_failed_message :: string where
  "camera_failed_message =
     emoji_cross @ '' Camera access failed. Please check permissions and try again.''"

definition camera_ready_message :: string where
  "camera_ready_message = emoji_check @ '' Camera ready! Positioning face in center...''"

definition retrying_message :: string where
  "retrying_message = emoji_arrows @ '' Retrying with enhanced camera settings...''"

definition service_unavailable_message :: string where
  "service_unavailable_message = ''Face detection service unavailable. Please try again.''"

record constraints =
  width_ideal :: nat
  height_ideal :: nat
  frameRate_ideal :: nat
  frameRate_max :: nat
  audio :: bool

definition getCameraConstraints :: "string \<Rightarrow> constraints" where
  "getCameraConstraints quality =
     (if quality = ''ultra'' then
        \<lparr>width_ideal = 3840, height_ideal = 2160, frameRate_ideal = 30, frameRate_max = 30,
         audio = False\<rparr>
      else if quality = ''high'' then
        \<lparr>width_ideal = 1920, height_ideal = 1080, frameRate_ideal = 60, frameRate_max = 60,
         audio = False\<rparr>
      else if quality = ''medium'' then
        \<lparr>width_ideal = 1280, height_ideal = 720, frameRate_ideal = 30, frameRate_max = 30,
         audio = False\<rparr>
      else
        \<lparr>width_ideal = 1920, height_ideal = 1080, frameRate_ideal = 60, frameRate_max = 60,
         audio = False\<rparr>)"

text \<open>
  The device: what \<^verbatim>\<open>getUserMedia\<close> answers to the \<open>n\<close>-th request of one acquisition.
  A promise resolved with a falsy value is \<open>Resolved None\<close>.
\<close>

type_synonym media_devices = "nat \<Rightarrow> constraints \<Rightarrow> stream option promise"

record camera_env =
  env_isProcessing :: bool
  env_cameraQuality :: string

record face_request =
  req_interval :: nat
  image :: string
  quality :: string
  timestamp :: nat
  settled :: bool

record face_response =
  success :: bool
  resp_user :: "user_record option"
  action :: "string option"
  resp_message :: "string option"

text \<open>
  \<open>intervals\<close>: the timers made by \<^verbatim>\<open>setInterval\<close>, by identifier, each with the environment
  of its callback, \<open>None\<close> once cleared. \<open>requests\<close>: every POST to \<^verbatim>\<open>/api/validate-face\<close>
  issued so far, with the timer that issued it. \<open>attempted\<close>: the quality of every
  \<^verbatim>\<open>getUserMedia\<close> request made so far.
\<close>

record camera_world = view_world +
  isProcessing :: bool
  cameraQuality :: string
  onloadedmetadata :: "camera_env option"
  intervals :: "camera_env option list"
  requests :: "face_request list"
  attempted :: "string list"

definition setIsProcessing :: "bool \<Rightarrow> camera_world \<Rightarrow> camera_world" where
  "setIsProcessing b w = (if mounted w then w\<lparr>isProcessing := b\<rparr> else w)"

definition setCameraQuality :: "string \<Rightarrow> camera_world \<Rightarrow> camera_world" where
  "setCameraQuality q w = (if mounted w then w\<lparr>cameraQuality := q\<rparr> else w)"

text \<open>
  The \<^verbatim>\<open>for\<close> loop of \<^verbatim>\<open>initializeCamera\<close>: the qualities requested, in order, and the
  stream with the quality that gave it.
\<close>

fun tryQualities ::
  "media_devices \<Rightarrow> nat \<Rightarrow> string list \<Rightarrow> string list \<times> (stream \<times> string) option" where
  "tryQualities gum n [] = ([], None)"
| "tryQualities gum n (q # qs) =
     (case gum n (getCameraConstraints q) of
        Resolved (Some s) \<Rightarrow> ([q], Some (s, q))
      | Resolved None \<Rightarrow>
          (case tryQualities gum (Suc n) qs of (tried, r) \<Rightarrow> (q # tried, r))
      | Rejected \<Rightarrow>
          (case tryQualities gum (Suc n) qs of (tried, r) \<Rightarrow> (q # tried, r)))"

text \<open>
  \<^verbatim>\<open>initializeCamera\<close> with its list of qualities as a parameter; \<open>env\<close> is the render
  whose \<^verbatim>\<open>startFaceValidation\<close> the metadata handler will call. Assigning
  \<^verbatim>\<open>srcObject\<close> on a missing video element throws into the \<^verbatim>\<open>catch\<close>.
\<close>

definition initializeCameraWith ::
  "string list \<Rightarrow> camera_env \<Rightarrow> media_devices \<Rightarrow> camera_world \<Rightarrow> camera_world" where
  "initializeCameraWith qualities env gum w =
     (let w1 = setMessage (Some accessing_message) w in
      case tryQualities gum 0 qualities of
        (tried, r) \<Rightarrow>
          let w2 = w1\<lparr>attempted := attempted w1 @ tried\<rparr> in
          (case r of
             None \<Rightarrow> setMessage (Some camera_failed_message) w2
           | Some (s, q) \<Rightarrow>
               let w3 = (setCameraQuality q w2)\<lparr>streamRef := Some s, live := s # live w2\<rparr> in
               (case videoRef w3 of
                  None \<Rightarrow> setMessage (Some camera_failed_message) w3
                | Some video \<Rightarrow>
                    w3\<lparr>videoRef := Some (video\<lparr>srcObject := Some s\<rparr>),
                       onloadedmetadata := Some env\<rparr>)))"

definition initializeCamera :: "camera_env \<Rightarrow> media_devices \<Rightarrow> camera_world \<Rightarrow> camera_world" where
  "initializeCamera env gum w = initializeCameraWith [''high'', ''medium'', ''default''] env gum w"

definition first_render :: camera_env where
  "first_render = \<lparr>env_isProcessing = False, env_cameraQuality = ''high''\<rparr>"

definition current_render :: "camera_world \<Rightarrow> camera_env" where
  "current_render w = \<lparr>env_isProcessing = isProcessing w, env_cameraQuality = cameraQuality w\<rparr>"

definition fresh_camera :: "app_state \<Rightarrow> stream list \<Rightarrow> camera_world" where
  "fresh_camera a ls =
     \<lparr>app = a, mounted = True, message = Some ''Initializing camera...'', streamRef = None,
      videoRef = Some \<lparr>videoWidth = 0, srcObject = None\<rparr>, live = ls,
      isProcessing = False, cameraQuality = ''high'', onloadedmetadata = None,
      intervals = [], requests = [], attempted = []\<rparr>"

text \<open>The mount effect: \<^verbatim>\<open>initializeCamera()\<close> of the first render.\<close>

definition mountCamera :: "app_state \<Rightarrow> stream list \<Rightarrow> media_devices \<Rightarrow> camera_world" where
  "mountCamera a ls gum = initializeCamera first_render gum (fresh_camera a ls)"

text \<open>The button handler, bound in the render on screen at the click.\<close>

definition retryWithBetterQuality :: "media_devices \<Rightarrow> camera_world \<Rightarrow> camera_world" where
  "retryWithBetterQuality gum w =
     initializeCamera (current_render w) gum
       (setMessage (Some retrying_message) (w\<lparr>live := stopTracks (streamRef w) (live w)\<rparr>))"

subsection \<open>CameraInterface: face polling\<close>

definition startFaceValidation :: "camera_env \<Rightarrow> camera_world \<Rightarrow> camera_world" where
  "startFaceValidation env w = w\<lparr>intervals := intervals w @ [Some env]\<rparr>"

definition clearInterval :: "nat \<Rightarrow> camera_world \<Rightarrow> camera_world" where
  "clearInterval i w = w\<lparr>intervals := (intervals w)[i := None]\<rparr>"

definition interval_at :: "camera_world \<Rightarrow> nat \<Rightarrow> camera_env option" where
  "interval_at w i = (if i < length (intervals w) then intervals w ! i else None)"

definition onLoginSuccess :: "user_record option \<Rightarrow> camera_world \<Rightarrow> camera_world" where
  "onLoginSuccess userData w = w\<lparr>app := handleLoginSuccess userData (app w)\<rparr>"

definition onRegisterPrompt :: "camera_world \<Rightarrow> camera_world" where
  "onRegisterPrompt w = w\<lparr>app := handleRegisterPrompt (app w)\<rparr>"

text \<open>
  The interval callback up to its \<^verbatim>\<open>await\<close>: \<open>i\<close> is the timer, \<open>env\<close> the render that made
  it, \<open>now\<close> the clock. The guard and the quality tag read \<open>env\<close>.
\<close>

definition faceTick :: "nat \<Rightarrow> camera_env \<Rightarrow> nat \<Rightarrow> string \<Rightarrow> camera_world \<Rightarrow> camera_world" where
  "faceTick i env now pic w =
     (if env_isProcessing env then w
      else case captureFrame pic w of
             None \<Rightarrow> w
           | Some imageData \<Rightarrow>
               if imageData = [] then w
               else (setIsProcessing True w)
                 \<lparr>requests := requests w @
                    [\<lparr>req_interval = i, image = imageData, quality = env_cameraQuality env,
                      timestamp = now, settled = False\<rparr>]\<rparr>)"

text \<open>The rest of the callback, run when the POST of timer \<open>i\<close> settles.\<close>

definition faceSettled :: "nat \<Rightarrow> face_response promise \<Rightarrow> camera_world \<Rightarrow> camera_world" where
  "faceSettled i outcome w =
     setIsProcessing False
       (case outcome of
          Resolved d \<Rightarrow>
            if success d then onLoginSuccess (resp_user d) (clearInterval i w)
            else if action d = Some ''register_prompt'' then onRegisterPrompt (clearInterval i w)
            else setMessage (resp_message d) w
        | Rejected \<Rightarrow> setMessage (Some service_unavailable_message) w)"

datatype camera_event =
  LoadedMetadata nat
| Tick nat nat string
| Settle nat "face_response promise"
| EnhanceQuality media_devices
| SetCurrentView string

definition loadedMetadata :: "nat \<Rightarrow> camera_world \<Rightarrow> camera_world" where
  "loadedMetadata width w =
     (case videoRef w of
        None \<Rightarrow> w
      | Some video \<Rightarrow>
          let w1 = w\<lparr>videoRef := Some (video\<lparr>videoWidth := width\<rparr>)\<rparr> in
          (case onloadedmetadata w1 of
             None \<Rightarrow> w1
           | Some env \<Rightarrow> startFaceValidation env (setMessage (Some camera_ready_message) w1)))"

definition tick :: "nat \<Rightarrow> nat \<Rightarrow> string \<Rightarrow> camera_world \<Rightarrow> camera_world" where
  "tick i now pic w =
     (case interval_at w i of None \<Rightarrow> w | Some env \<Rightarrow> faceTick i env now pic w)"

definition settle :: "nat \<Rightarrow> face_response promise \<Rightarrow> camera_world \<Rightarrow> camera_world" where
  "settle k outcome w =
     (if k < length (requests w) then
        (if settled (requests w ! k) then w
         else faceSettled (req_interval (requests w ! k)) outcome
                (w\<lparr>requests := (requests w)[k := (requests w ! k)\<lparr>settled := True\<rparr>]\<rparr>))
      else w)"

text \<open>
  One event of the camera view, then the render of \<^verbatim>\<open>App\<close>. The header buttons are
  \<open>SetCurrentView\<close>; the quality button exists while the component is mounted.
\<close>

definition camera_step :: "camera_event \<Rightarrow> camera_world \<Rightarrow> camera_world" where
  "camera_step e w =
     rerender CameraInterface
       (case e of
          LoadedMetadata width \<Rightarrow> loadedMetadata width w
        | Tick i now pic \<Rightarrow> tick i now pic w
        | Settle k outcome \<Rightarrow> settle k outcome w
        | EnhanceQuality gum \<Rightarrow> if mounted w then retryWithBetterQuality gum w else w
        | SetCurrentView v \<Rightarrow> setCurrentView v w)"

fun camera_run :: "camera_event list \<Rightarrow> camera_world \<Rightarrow> camera_world" where
  "camera_run [] w = w"
| "camera_run (e # es) w = camera_run es (camera_step e w)"

definition unsettled_of :: "nat \<Rightarrow> face_request \<Rightarrow> bool" where
  "unsettled_of i r = (if settled r then False else req_interval r = i)"

definition in_flight :: "nat \<Rightarrow> camera_world \<Rightarrow> nat" where
  "in_flight i w = length (filter (unsettled_of i) (requests w))"

text \<open>Every event but the quality button, which starts a new acquisition.\<close>

definition no_new_acquisition :: "camera_event \<Rightarrow> bool" where
  "no_new_acquisition e =
     (case e of LoadedMetadata width \<Rightarrow> True | Tick i now pic \<Rightarrow> True
      | Settle k outcome \<Rightarrow> True | EnhanceQuality gum \<Rightarrow> False | SetCurrentView v \<Rightarrow> True)"

text \<open>The stream that the \<open>n\<close>-th request, made for quality \<open>q\<close>, yields; \<open>None\<close> when it fails.\<close>

definition granted :: "media_devices \<Rightarrow> nat \<Rightarrow> string \<Rightarrow> stream option" where
  "granted gum n q =
     (case gum n (getCameraConstraints q) of Resolved r \<Rightarrow> r | Rejected \<Rightarrow> None)"

text \<open>No metadata handler installed, no timer made, no POST issued.\<close>

definition idle_camera :: "camera_world \<Rightarrow> bool" where
  "idle_camera w = (onloadedmetadata w = None \<and> intervals w = [] \<and> requests w = [])"

subsection \<open>GestureInterface\<close>

definition initial_gesture_message :: string where
  "initial_gesture_message = ''Move your head LEFT for Yes, RIGHT for No''"

definition gesture_camera_error_message :: string where
  "gesture_camera_error_message = ''Error accessing camera. Please allow camera permissions.''"

definition yes_detected_message :: string where
  "yes_detected_message = emoji_check @ '' Yes detected! Starting registration...''"

definition no_detected_message :: string where
  "no_detected_message = emoji_cross @ '' No detected. Redirecting to guest access...''"

definition yes_selected_message :: string where
  "yes_selected_message = emoji_check @ '' Yes selected! Starting registration...''"

definition no_selected_message :: string where
  "no_selected_message = emoji_cross @ '' No selected. Redirecting to guest access...''"

definition gesture_unavailable_message :: string where
  "gesture_unavailable_message = ''Gesture detection unavailable. Use buttons below.''"

record gesture_env =
  env_isDetecting :: bool
  env_message :: string

record gesture_request =
  gimage :: string
  gsettled :: bool

record gesture_response =
  gsuccess :: bool
  detected :: bool
  gesture :: "string option"

datatype callback = OnRegistrationStart | OnGuestAccess

record timeout =
  handler :: callback
  delay :: nat
  fired :: bool

text \<open>
  \<open>closure_env\<close>: the render that made the interval callback. \<open>detectionInterval\<close>: the
  timer is scheduled and not cleared. \<open>grequests\<close>: every POST to
  \<^verbatim>\<open>/api/detect-gesture\<close> so far. \<open>timeouts\<close>: every \<^verbatim>\<open>setTimeout\<close> so far, with its
  delay in milliseconds; none is ever cancelled.
\<close>

record gesture_world = view_world +
  gestureDetected :: "string option"
  isDetecting :: bool
  closure_env :: gesture_env
  detectionInterval :: bool
  grequests :: "gesture_request list"
  timeouts :: "timeout list"

definition setGestureDetected :: "string option \<Rightarrow> gesture_world \<Rightarrow> gesture_world" where
  "setGestureDetected g w = (if mounted w then w\<lparr>gestureDetected := g\<rparr> else w)"

definition setIsDetecting :: "bool \<Rightarrow> gesture_world \<Rightarrow> gesture_world" where
  "setIsDetecting b w = (if mounted w then w\<lparr>isDetecting := b\<rparr> else w)"

definition setTimeout :: "callback \<Rightarrow> nat \<Rightarrow> gesture_world \<Rightarrow> gesture_world" where
  "setTimeout cb ms w = w\<lparr>timeouts := timeouts w @ [\<lparr>handler = cb, delay = ms, fired = False\<rparr>]\<rparr>"

text \<open>
  The mount effect: \<^verbatim>\<open>initializeCamera()\<close> sends its one \<^verbatim>\<open>getUserMedia\<close> request and
  \<^verbatim>\<open>startGestureDetection()\<close> schedules the timer, whose callback belongs to the first
  render.
\<close>

definition mountGesture :: "app_state \<Rightarrow> stream list \<Rightarrow> gesture_world" where
  "mountGesture a ls =
     \<lparr>app = a, mounted = True, message = Some initial_gesture_message, streamRef = None,
      videoRef = Some \<lparr>videoWidth = 0, srcObject = None\<rparr>, live = ls,
      gestureDetected = None, isDetecting = True,
      closure_env = \<lparr>env_isDetecting = True, env_message = initial_gesture_message\<rparr>,
      detectionInterval = True, grequests = [], timeouts = []\<rparr>"

text \<open>The rest of \<^verbatim>\<open>initializeCamera\<close>, run when that request settles.\<close>

definition gotUserMedia :: "stream promise \<Rightarrow> gesture_world \<Rightarrow> gesture_world" where
  "gotUserMedia outcome w =
     (case outcome of
        Resolved s \<Rightarrow>
          let w1 = w\<lparr>streamRef := Some s, live := s # live w\<rparr> in
          (case videoRef w1 of
             None \<Rightarrow> setMessage (Some gesture_camera_error_message) w1
           | Some video \<Rightarrow> w1\<lparr>videoRef := Some (video\<lparr>srcObject := Some s\<rparr>)\<rparr>)
      | Rejected \<Rightarrow> setMessage (Some gesture_camera_error_message) w)"

text \<open>The interval callback up to its \<^verbatim>\<open>await\<close>.\<close>

definition gestureTick :: "gesture_env \<Rightarrow> string \<Rightarrow> gesture_world \<Rightarrow> gesture_world" where
  "gestureTick env pic w =
     (if env_isDetecting env then
        (case captureFrame pic w of
           None \<Rightarrow> w
         | Some imageData \<Rightarrow>
             if imageData = [] then w
             else w\<lparr>grequests := grequests w @ [\<lparr>gimage = imageData, gsettled = False\<rparr>]\<rparr>)
      else w\<lparr>detectionInterval := False\<rparr>)"

text \<open>The rest of the callback, run when its POST settles.\<close>

definition gestureSettled ::
  "gesture_env \<Rightarrow> gesture_response promise \<Rightarrow> gesture_world \<Rightarrow> gesture_world" where
  "gestureSettled env outcome w =
     (case outcome of
        Resolved d \<Rightarrow>
          if gsuccess d then
            (if detected d then
               (let w1 = setGestureDetected (gesture d) w in
                if gesture d = Some ''left'' then
                  setTimeout OnRegistrationStart 2000
                    (setMessage (Some yes_detected_message) (setIsDetecting False w1))
                else if gesture d = Some ''right'' then
                  setTimeout OnGuestAccess 2000
                    (setMessage (Some no_detected_message) (setIsDetecting False w1))
                else w1)
             else w)
          else w
      | Rejected \<Rightarrow>
          if sublist ''Use buttons below'' (env_message env) then w
          else setMessage (Some gesture_unavailable_message) w)"

definition handleManualYes :: "gesture_world \<Rightarrow> gesture_world" where
  "handleManualYes w =
     setTimeout OnRegistrationStart 1500
       (setMessage (Some yes_selected_message)
          (setGestureDetected (Some ''left'') (setIsDetecting False w)))"

definition handleManualNo :: "gesture_world \<Rightarrow> gesture_world" where
  "handleManualNo w =
     setTimeout OnGuestAccess 1500
       (setMessage (Some no_selected_message)
          (setGestureDetected (Some ''right'') (setIsDetecting False w)))"

text \<open>Both buttons carry \<^verbatim>\<open>disabled={!isDetecting}\<close>, read from the render on screen.\<close>

definition manual_buttons_enabled :: "gesture_world \<Rightarrow> bool" where
  "manual_buttons_enabled w = (if mounted w then isDetecting w else False)"

definition run_callback :: "callback \<Rightarrow> app_state \<Rightarrow> app_state" where
  "run_callback cb a =
     (case cb of OnRegistrationStart \<Rightarrow> onRegistrationStart a | OnGuestAccess \<Rightarrow> handleGuestAccess a)"

definition fireTimeout :: "nat \<Rightarrow> gesture_world \<Rightarrow> gesture_world" where
  "fireTimeout k w =
     (if k < length (timeouts w) then
        (if fired (timeouts w ! k) then w
         else w\<lparr>timeouts := (timeouts w)[k := (timeouts w ! k)\<lparr>fired := True\<rparr>],
                app := run_callback (handler (timeouts w ! k)) (app w)\<rparr>)
      else w)"

definition gtick :: "string \<Rightarrow> gesture_world \<Rightarrow> gesture_world" where
  "gtick pic w = (if detectionInterval w then gestureTick (closure_env w) pic w else w)"

definition gsettle :: "nat \<Rightarrow> gesture_response promise \<Rightarrow> gesture_world \<Rightarrow> gesture_world" where
  "gsettle k outcome w =
     (if k < length (grequests w) then
        (if gsettled (grequests w ! k) then w
         else gestureSettled (closure_env w) outcome
                (w\<lparr>grequests := (grequests w)[k := (grequests w ! k)\<lparr>gsettled := True\<rparr>]\<rparr>))
      else w)"

definition videoMetadata :: "nat \<Rightarrow> gesture_world \<Rightarrow> gesture_world" where
  "videoMetadata width w =
     (case videoRef w of
        None \<Rightarrow> w
      | Some video \<Rightarrow> w\<lparr>videoRef := Some (video\<lparr>videoWidth := width\<rparr>)\<rparr>)"

datatype gesture_event =
  GotUserMedia "stream promise"
| VideoMetadata nat
| GTick string
| GSettle nat "gesture_response promise"
| ClickYes
| ClickNo
| Timeout nat
| GSetCurrentView string

text \<open>One event of the gesture view, then the render of \<^verbatim>\<open>App\<close>.\<close>

definition gesture_step :: "gesture_event \<Rightarrow> gesture_world \<Rightarrow> gesture_world" where
  "gesture_step e w =
     rerender GestureInterface
       (case e of
          GotUserMedia outcome \<Rightarrow> gotUserMedia outcome w
        | VideoMetadata width \<Rightarrow> videoMetadata width w
        | GTick pic \<Rightarrow> gtick pic w
        | GSettle k outcome \<Rightarrow> gsettle k outcome w
        | ClickYes \<Rightarrow> if manual_buttons_enabled w then handleManualYes w else w
        | ClickNo \<Rightarrow> if manual_buttons_enabled w then handleManualNo w else w
        | Timeout k \<Rightarrow> fireTimeout k w
        | GSetCurrentView v \<Rightarrow> setCurrentView v w)"

fun gesture_run :: "gesture_event list \<Rightarrow> gesture_world \<Rightarrow> gesture_world" where
  "gesture_run [] w = w"
| "gesture_run (e # es) w = gesture_run es (gesture_step e w)"

subsection \<open>Sample sessions\<close>

definition camera_granted :: media_devices where
  "camera_granted n c = Resolved (Some 1)"

text \<open>
  The camera view after its mount with the first request granted, the metadata of a
  640 pixel wide video loaded, and the first firing of the timer, whose POST is pending.
\<close>

definition polling_camera :: camera_world where
  "polling_camera =
     camera_run [LoadedMetadata 640, Tick 0 1500 ''a''] (mountCamera initial_app [] camera_granted)"

text \<open>The gesture view at the same point of its life.\<close>

definition polling_gesture :: gesture_world where
  "polling_gesture =
     gesture_run [GotUserMedia (Resolved 1), VideoMetadata 640, GTick ''a'']
       (mountGesture \<lparr>currentView = ''gesture'', user = None\<rparr> [])"

definition left_response :: gesture_response where
  "left_response = \<lparr>gsuccess = True, detected = True, gesture = Some ''left''\<rparr>"

definition user_A :: user_record where
  "user_A = \<lparr>name = ''A'', email = ''a@x.com''\<rparr>"

definition success_A :: face_response where
  "success_A = \<lparr>success = True, resp_user = Some user_A, action = None, resp_message = None\<rparr>"

definition retry_response :: face_response where
  "retry_response =
     \<lparr>success = False, resp_user = None, action = None, resp_message = Some ''No face detected''\<rparr>"

section \<open>Properties\<close>

subsection \<open>The sample sessions, evaluated\<close>

lemma polling_camera_eq:
  "polling_camera =
    \<lparr>app = \<lparr>currentView = ''camera'', user = None\<rparr>, mounted = True,
     message = Some camera_ready_message, streamRef = Some 1,
     videoRef = Some \<lparr>videoWidth = 640, srcObject = Some 1\<rparr>, live = [1],
     isProcessing = True, cameraQuality = ''high'',
     onloadedmetadata = Some \<lparr>env_isProcessing = False, env_cameraQuality = ''high''\<rparr>,
     intervals = [Some \<lparr>env_isProcessing = False, env_cameraQuality = ''high''\<rparr>],
     requests = [\<lparr>req_interval = 0, image = ''data:image/jpeg;base64,a'', quality = ''high'',
                  timestamp = 1500, settled = False\<rparr>],
     attempted = [''high'']\<rparr>"
  by (simp add: polling_camera_def mountCamera_def initializeCamera_def initializeCameraWith_def
      fresh_camera_def first_render_def camera_granted_def camera_step_def loadedMetadata_def
      tick_def faceTick_def interval_at_def captureFrame_def setMessage_def setIsProcessing_def
      setCameraQuality_def startFaceValidation_def rerender_def renderView_def initial_app_def
      Let_def)

lemma polling_gesture_eq:
  "polling_gesture =
    \<lparr>app = \<lparr>currentView = ''gesture'', user = None\<rparr>, mounted = True,
     message = Some initial_gesture_message, streamRef = Some 1,
     videoRef = Some \<lparr>videoWidth = 640, srcObject = Some 1\<rparr>, live = [1],
     gestureDetected = None, isDetecting = True,
     closure_env = \<lparr>env_isDetecting = True, env_message = initial_gesture_message\<rparr>,
     detectionInterval = True,
     grequests = [\<lparr>gimage = ''data:image/jpeg;base64,a'', gsettled = False\<rparr>],
     timeouts = []\<rparr>"
  by (simp add: polling_gesture_def mountGesture_def gesture_step_def gotUserMedia_def
      videoMetadata_def gtick_def gestureTick_def captureFrame_def rerender_def renderView_def
      Let_def)

subsection \<open>Camera acquisition\<close>

lemmas setter_defs = setMessage_def setIsProcessing_def setCameraQuality_def

lemma rerender_idem: "rerender c (rerender c w) = rerender c w"
  by (simp add: rerender_def unmount_def)

lemma tryQualities_fail_step:
  "granted gum n q = None \<Longrightarrow>
   tryQualities gum n (q # qs) = (q # fst (tryQualities gum (Suc n) qs), snd (tryQualities gum (Suc n) qs))"
  by (simp add: granted_def split: promise.splits option.splits prod.splits)

lemma tryQualities_success_step:
  "granted gum n q = Some s \<Longrightarrow> tryQualities gum n (q # qs) = ([q], Some (s, q))"
  by (simp add: granted_def split: promise.splits option.splits)

lemma tryQualities_all_fail:
  "(\<forall>j<length qs. granted gum (n + j) (qs ! j) = None) \<Longrightarrow> tryQualities gum n qs = (qs, None)"
proof (induction qs arbitrary: n)
  case Nil
  show ?case by simp
next
  case (Cons q qs)
  have h0: "granted gum n q = None"
    using Cons.prems [rule_format, of 0] by simp
  have "\<forall>j<length qs. granted gum (Suc n + j) (qs ! j) = None"
  proof (intro allI impI)
    fix j assume "j < length qs"
    then have "Suc j < length (q # qs)" by simp
    then have "granted gum (n + Suc j) ((q # qs) ! Suc j) = None" using Cons.prems by blast
    then show "granted gum (Suc n + j) (qs ! j) = None" by simp
  qed
  then have "tryQualities gum (Suc n) qs = (qs, None)" by (rule Cons.IH)
  then show ?case by (simp only: tryQualities_fail_step [OF h0] fst_conv snd_conv)
qed

lemma tryQualities_first_success:
  "k < length qs \<Longrightarrow> granted gum (n + k) (qs ! k) = Some s \<Longrightarrow>
   (\<forall>j<k. granted gum (n + j) (qs ! j) = None) \<Longrightarrow>
   tryQualities gum n qs = (take (Suc k) qs, Some (s, qs ! k))"
proof (induction qs arbitrary: n k)
  case Nil
  then show ?case by simp
next
  case (Cons q qs)
  show ?case
  proof (cases k)
    case 0
    have "granted gum n q = Some s" using Cons.prems(2) 0 by simp
    then have "tryQualities gum n (q # qs) = ([q], Some (s, q))"
      by (rule tryQualities_success_step)
    then show ?thesis using 0 by simp
  next
    case (Suc k')
    have h0: "granted gum n q = None"
      using Cons.prems(3) [rule_format, of 0] Suc by simp
    have a: "k' < length qs" using Cons.prems(1) Suc by simp
    have b: "granted gum (Suc n + k') (qs ! k') = Some s" using Cons.prems(2) Suc by simp
    have c: "\<forall>j<k'. granted gum (Suc n + j) (qs ! j) = None"
    proof (intro allI impI)
      fix j assume "j < k'"
      then have "Suc j < k" using Suc by simp
      then have "granted gum (n + Suc j) ((q # qs) ! Suc j) = None" using Cons.prems(3) by blast
      then show "granted gum (Suc n + j) (qs ! j) = None" by simp
    qed
    have "tryQualities gum (Suc n) qs = (take (Suc k') qs, Some (s, qs ! k'))"
      using Cons.IH [OF a b c] .
    then show ?thesis using Suc by (simp only: tryQualities_fail_step [OF h0] fst_conv snd_conv take_Suc_Cons nth_Cons_Suc)
  qed
qed

lemma init_fail:
  "tryQualities gum 0 qs = (qs, None) \<Longrightarrow> mounted w \<Longrightarrow>
   initializeCameraWith qs env gum w = w\<lparr>message := Some camera_failed_message, attempted := attempted w @ qs\<rparr>"
  by (simp add: initializeCameraWith_def setter_defs Let_def)

lemma init_ok:
  "tryQualities gum 0 qs = (tried, Some (s, q)) \<Longrightarrow> mounted w \<Longrightarrow> videoRef w = Some video \<Longrightarrow>
   initializeCameraWith qs env gum w =
     w\<lparr>message := Some accessing_message, attempted := attempted w @ tried, cameraQuality := q,
       streamRef := Some s, live := s # live w, videoRef := Some (video\<lparr>srcObject := Some s\<rparr>),
       onloadedmetadata := Some env\<rparr>"
  by (simp add: initializeCameraWith_def setter_defs Let_def)

lemma idle_step: "idle_camera w \<Longrightarrow> no_new_acquisition e \<Longrightarrow> idle_camera (camera_step e w)"
  by (cases e) (auto simp: idle_camera_def no_new_acquisition_def camera_step_def rerender_def unmount_def
      loadedMetadata_def tick_def interval_at_def settle_def setCurrentView_def Let_def
      split: option.splits)

lemma idle_run: "idle_camera w \<Longrightarrow> list_all no_new_acquisition es \<Longrightarrow> idle_camera (camera_run es w)"
  by (induction es arbitrary: w) (auto simp: idle_step)

text \<open>
  Claim C2. Camera acquisition requests the qualities of its list in the given order and
  stops at the first request that yields a stream: when request \<open>k\<close> is the first to
  succeed, exactly the first \<open>k + 1\<close> qualities have been requested, the stream is kept in
  \<^verbatim>\<open>streamRef\<close> and the metadata handler is installed. When every request fails, the whole
  list has been requested, the failure message is shown, and no stream, handler, timer or
  POST is added; from a fresh mount no later event other than the quality button ever
  makes a timer or issues a POST.
\<close>

theorem initializeCamera_tries_in_order:
  assumes "mounted w"
  shows "((\<forall>j<length qs. granted gum j (qs ! j) = None) \<longrightarrow>
            attempted (initializeCameraWith qs env gum w) = attempted w @ qs \<and>
            message (initializeCameraWith qs env gum w) = Some camera_failed_message \<and>
            streamRef (initializeCameraWith qs env gum w) = streamRef w \<and>
            live (initializeCameraWith qs env gum w) = live w \<and>
            onloadedmetadata (initializeCameraWith qs env gum w) = onloadedmetadata w \<and>
            intervals (initializeCameraWith qs env gum w) = intervals w \<and>
            requests (initializeCameraWith qs env gum w) = requests w) \<and>
         (\<forall>k s video.
            k < length qs \<and> granted gum k (qs ! k) = Some s \<and>
            (\<forall>j<k. granted gum j (qs ! j) = None) \<and> videoRef w = Some video \<longrightarrow>
            attempted (initializeCameraWith qs env gum w) = attempted w @ take (Suc k) qs \<and>
            streamRef (initializeCameraWith qs env gum w) = Some s \<and>
            cameraQuality (initializeCameraWith qs env gum w) = qs ! k \<and>
            onloadedmetadata (initializeCameraWith qs env gum w) = Some env) \<and>
         (\<forall>es.
            (\<forall>j<length qs. granted gum j (qs ! j) = None) \<and> list_all no_new_acquisition es \<longrightarrow>
            requests (camera_run es (initializeCameraWith qs first_render gum (fresh_camera a ls))) = [] \<and>
            intervals (camera_run es (initializeCameraWith qs first_render gum (fresh_camera a ls))) = [])"
proof (intro conjI allI impI)
  assume f: "\<forall>j<length qs. granted gum j (qs ! j) = None"
  then have "\<forall>j<length qs. granted gum (0 + j) (qs ! j) = None" by simp
  then have t: "tryQualities gum 0 qs = (qs, None)" by (rule tryQualities_all_fail)
  note e = init_fail [OF t assms, of env]
  show "attempted (initializeCameraWith qs env gum w) = attempted w @ qs" by (simp add: e)
  show "message (initializeCameraWith qs env gum w) = Some camera_failed_message" by (simp add: e)
  show "streamRef (initializeCameraWith qs env gum w) = streamRef w" by (simp add: e)
  show "live (initializeCameraWith qs env gum w) = live w" by (simp add: e)
  show "onloadedmetadata (initializeCameraWith qs env gum w) = onloadedmetadata w" by (simp add: e)
  show "intervals (initializeCameraWith qs env gum w) = intervals w" by (simp add: e)
  show "requests (initializeCameraWith qs env gum w) = requests w" by (simp add: e)
next
  fix k s video
  assume h: "k < length qs \<and> granted gum k (qs ! k) = Some s \<and>
             (\<forall>j<k. granted gum j (qs ! j) = None) \<and> videoRef w = Some video"
  then have a: "k < length qs" and b: "granted gum (0 + k) (qs ! k) = Some s"
    and c: "\<forall>j<k. granted gum (0 + j) (qs ! j) = None" and v: "videoRef w = Some video"
    by simp_all
  note t = tryQualities_first_success [OF a b c]
  note e = init_ok [OF t assms v, of env]
  show "attempted (initializeCameraWith qs env gum w) = attempted w @ take (Suc k) qs" by (simp add: e)
  show "streamRef (initializeCameraWith qs env gum w) = Some s" by (simp add: e)
  show "cameraQuality (initializeCameraWith qs env gum w) = qs ! k" by (simp add: e)
  show "onloadedmetadata (initializeCameraWith qs env gum w) = Some env" by (simp add: e)
next
  fix es
  assume h: "(\<forall>j<length qs. granted gum j (qs ! j) = None) \<and> list_all no_new_acquisition es"
  then have "\<forall>j<length qs. granted gum (0 + j) (qs ! j) = None" by simp
  then have t: "tryQualities gum 0 qs = (qs, None)" by (rule tryQualities_all_fail)
  have m: "mounted (fresh_camera a ls)" by (simp add: fresh_camera_def)
  have "idle_camera (initializeCameraWith qs first_render gum (fresh_camera a ls))"
    by (simp add: init_fail [OF t m] idle_camera_def) (simp add: fresh_camera_def)
  then have i: "idle_camera (camera_run es (initializeCameraWith qs first_render gum (fresh_camera a ls)))"
    using h by (simp add: idle_run)
  show "requests (camera_run es (initializeCameraWith qs first_render gum (fresh_camera a ls))) = []"
    using i by (simp add: idle_camera_def)
  show "intervals (camera_run es (initializeCameraWith qs first_render gum (fresh_camera a ls))) = []"
    using i by (simp add: idle_camera_def)
qed

theorem initializeCamera_tries_in_order_witness:
  "mounted (fresh_camera initial_app []) \<and>
   attempted (mountCamera initial_app [] (\<lambda>n c. Rejected)) = [''high'', ''medium'', ''default''] \<and>
   message (mountCamera initial_app [] (\<lambda>n c. Rejected)) = Some camera_failed_message \<and>
   requests (camera_run [LoadedMetadata 640, Tick 0 1500 ''a'']
     (mountCamera initial_app [] (\<lambda>n c. Rejected))) = [] \<and>
   attempted (mountCamera initial_app [] (\<lambda>n c. if n = 1 then Resolved (Some 5) else Rejected))
     = [''high'', ''medium''] \<and>
   streamRef (mountCamera initial_app [] (\<lambda>n c. if n = 1 then Resolved (Some 5) else Rejected))
     = Some 5 \<and>
   cameraQuality (mountCamera initial_app [] (\<lambda>n c. if n = 1 then Resolved (Some 5) else Rejected))
     = ''medium''"
proof -
  let ?qs = "[''high'', ''medium'', ''default'']"
  let ?deny = "(\<lambda>n c. Rejected) :: media_devices"
  let ?second = "(\<lambda>n c. if n = 1 then Resolved (Some 5) else Rejected) :: media_devices"
  let ?w = "fresh_camera initial_app []"
  have m: "mounted ?w" by (simp add: fresh_camera_def)
  have a0: "attempted ?w = []" by (simp add: fresh_camera_def)
  have f: "\<forall>j<length ?qs. granted ?deny j (?qs ! j) = None"
    by (simp add: granted_def)
  have t: "list_all no_new_acquisition [LoadedMetadata 640, Tick 0 1500 ''a'']"
    by (simp add: no_new_acquisition_def)
  have g: "1 < length ?qs \<and> granted ?second 1 (?qs ! 1) = Some 5 \<and>
           (\<forall>j<1. granted ?second j (?qs ! j) = None) \<and>
           videoRef ?w = Some \<lparr>videoWidth = 0, srcObject = None\<rparr>"
    by (simp add: granted_def fresh_camera_def)
  note A = initializeCamera_tries_in_order [OF m, of ?qs ?deny first_render initial_app "[]"]
  note B = initializeCamera_tries_in_order [OF m, of ?qs ?second first_render initial_app "[]"]
  have A1: "attempted (initializeCameraWith ?qs first_render ?deny ?w) = attempted ?w @ ?qs \<and>
            message (initializeCameraWith ?qs first_render ?deny ?w) = Some camera_failed_message"
    using A [THEN conjunct1, THEN mp, OF f] by blast
  have A3: "requests (camera_run [LoadedMetadata 640, Tick 0 1500 ''a'']
              (initializeCameraWith ?qs first_render ?deny ?w)) = []"
    using A [THEN conjunct2, THEN conjunct2, THEN spec, THEN mp, OF conjI [OF f t]] by blast
  have B1: "attempted (initializeCameraWith ?qs first_render ?second ?w) = attempted ?w @ take (Suc 1) ?qs \<and>
            streamRef (initializeCameraWith ?qs first_render ?second ?w) = Some 5 \<and>
            cameraQuality (initializeCameraWith ?qs first_render ?second ?w) = ?qs ! 1"
    using B [THEN conjunct2, THEN conjunct1, THEN spec, THEN spec, THEN spec, THEN mp, OF g]
    by blast
  show ?thesis
    unfolding mountCamera_def initializeCamera_def
    using m A1 A3 B1 by (simp add: a0)
qed

subsection \<open>The view switch\<close>

text \<open>
  Claim C10. \<^verbatim>\<open>renderView\<close> is total over view identifiers: for every value of
  \<^verbatim>\<open>currentView\<close> other than the six it names, the default branch renders the camera
  interface.
\<close>

theorem renderView_default_is_camera:
  "v \<notin> {''camera'', ''gesture'', ''register'', ''main'', ''guest'', ''health''} \<Longrightarrow>
   renderView v = CameraInterface"
  by (simp add: renderView_def)

text \<open>The view identifier \<^verbatim>\<open>settings\<close>, which no branch names, gives the camera interface.\<close>

theorem renderView_default_is_camera_witness:
  "''settings'' \<notin> {''camera'', ''gesture'', ''register'', ''main'', ''guest'', ''health''} \<and>
   renderView ''settings'' = CameraInterface"
proof -
  have h: "''settings'' \<notin> {''camera'', ''gesture'', ''register'', ''main'', ''guest'', ''health''}"
    by simp
  from renderView_default_is_camera [OF h] h show ?thesis by simp
qed

subsection \<open>The guest record\<close>

lemma fireTimeout_new:
  "fireTimeout (length (timeouts w)) (setTimeout cb ms w) =
     w\<lparr>timeouts := timeouts w @ [\<lparr>handler = cb, delay = ms, fired = True\<rparr>],
       app := run_callback cb (app w)\<rparr>"
  by (simp add: fireTimeout_def setTimeout_def)

lemma timeouts_setters [simp]:
  "timeouts (setMessage m w) = timeouts w"
  "timeouts (setIsDetecting b w) = timeouts w"
  "timeouts (setGestureDetected g w) = timeouts w"
  "app (setMessage m w) = app w"
  "app (setIsDetecting b w) = app w"
  "app (setGestureDetected g w) = app w"
  by (simp_all add: setMessage_def setIsDetecting_def setGestureDetected_def)

text \<open>
  Claim C9. Every way into guest access stores the same record, name \<^verbatim>\<open>Guest\<close> and
  email \<^verbatim>\<open>guest@example.com\<close>: the timeout scheduled by a detected \<^verbatim>\<open>right\<close> gesture,
  the timeout scheduled by the manual No button, and the registration form's
  continue-as-guest button, all of which run \<^verbatim>\<open>handleGuestAccess\<close>.
\<close>

theorem guest_record_is_constant:
  "user (app (fireTimeout (length (timeouts w))
      (gestureSettled env (Resolved \<lparr>gsuccess = True, detected = True, gesture = Some ''right''\<rparr>) w)))
     = Some \<lparr>name = ''Guest'', email = ''guest@example.com''\<rparr> \<and>
   user (app (fireTimeout (length (timeouts w)) (handleManualNo w)))
     = Some \<lparr>name = ''Guest'', email = ''guest@example.com''\<rparr> \<and>
   user (continueAsGuest a) = Some \<lparr>name = ''Guest'', email = ''guest@example.com''\<rparr> \<and>
   user (handleGuestAccess a) = Some \<lparr>name = ''Guest'', email = ''guest@example.com''\<rparr>"
proof -
  have g: "user (run_callback OnGuestAccess b) = Some \<lparr>name = ''Guest'', email = ''guest@example.com''\<rparr>" for b
    by (simp add: run_callback_def handleGuestAccess_def guest_user_def)
  have 1: "gestureSettled env (Resolved \<lparr>gsuccess = True, detected = True, gesture = Some ''right''\<rparr>) w
       = setTimeout OnGuestAccess 2000 (setMessage (Some no_detected_message)
           (setIsDetecting False (setGestureDetected (Some ''right'') w)))"
    by (simp add: gestureSettled_def)
  have 2: "length (timeouts w) = length (timeouts (setMessage (Some no_detected_message)
           (setIsDetecting False (setGestureDetected (Some ''right'') w))))" by simp
  have 3: "length (timeouts w) = length (timeouts (setMessage (Some no_selected_message)
          (setGestureDetected (Some ''right'') (setIsDetecting False w))))" by simp
  show ?thesis
    apply (intro conjI)
    subgoal by (simp only: 1) (subst 2, simp only: fireTimeout_new, simp add: g)
    subgoal unfolding handleManualNo_def by (subst 3, simp only: fireTimeout_new, simp add: g)
    subgoal by (simp add: continueAsGuest_def handleGuestAccess_def guest_user_def)
    subgoal by (simp add: handleGuestAccess_def guest_user_def)
    done
qed

subsection \<open>Logout and restart\<close>

text \<open>
  Claim C6, as the code has it. \<^verbatim>\<open>handleBackToCamera\<close> sets the view to \<^verbatim>\<open>camera\<close> and
  leaves the stored user record as it was. When the button is pressed in the gesture, the
  registration or the head pose view, that component is unmounted and its clean-up stops
  the tracks of the stream in its \<^verbatim>\<open>streamRef\<close>; pressed in the camera view, nothing is
  unmounted and the stream stays live. (The main and guest pages hold no stream.)
\<close>

theorem backToCamera_effect:
  "currentView (app (backToCamera c w)) = ''camera'' \<and>
   user (app (backToCamera c w)) = user (app w) \<and>
   (mounted w \<and> c \<in> {GestureInterface, RegistrationForm, HeadPoseDisplay} \<and> streamRef w = Some s
      \<longrightarrow> s \<notin> set (live (backToCamera c w)) \<and> \<not> mounted (backToCamera c w)) \<and>
   (c = CameraInterface \<longrightarrow> live (backToCamera c w) = live w \<and>
      streamRef (backToCamera c w) = streamRef w \<and> mounted (backToCamera c w) = mounted w)"
  by (auto simp add: backToCamera_def handleBackToCamera_def rerender_def unmount_def renderView_def
      stopTracks_def)

text \<open>
  Leaving the sample gesture view stops stream 1; pressing the button in the sample
  camera view leaves its stream live.
\<close>

theorem backToCamera_effect_witness:
  "backToCamera GestureInterface polling_gesture = unmount (polling_gesture\<lparr>app := \<lparr>currentView = ''camera'', user = None\<rparr>\<rparr>) \<and>
   mounted polling_gesture \<and> streamRef polling_gesture = Some 1 \<and>
   1 \<in> set (live polling_gesture) \<and>
   1 \<notin> set (live (backToCamera GestureInterface polling_gesture)) \<and>
   currentView (app (backToCamera GestureInterface polling_gesture)) = ''camera'' \<and>
   live (backToCamera CameraInterface polling_camera) = live polling_camera"
proof -
  have h: "mounted polling_gesture \<and> GestureInterface \<in> {GestureInterface, RegistrationForm, HeadPoseDisplay}
     \<and> streamRef polling_gesture = Some 1"
    by (simp add: polling_gesture_eq)
  have l: "1 \<in> set (live polling_gesture)" by (simp add: polling_gesture_eq)
  have e: "backToCamera GestureInterface polling_gesture = unmount (polling_gesture\<lparr>app := \<lparr>currentView = ''camera'', user = None\<rparr>\<rparr>)"
    by (simp add: polling_gesture_eq backToCamera_def handleBackToCamera_def rerender_def renderView_def)
  note A = backToCamera_effect [of GestureInterface polling_gesture 1]
  note B = backToCamera_effect [of CameraInterface polling_camera 1]
  from A h have a: "1 \<notin> set (live (backToCamera GestureInterface polling_gesture))" by blast
  from A have c: "currentView (app (backToCamera GestureInterface polling_gesture)) = ''camera''" by blast
  from B have b: "live (backToCamera CameraInterface polling_camera) = live polling_camera" by blast
  from h l e a b c show ?thesis by blast
qed

text \<open>
  Claim C6 as stated fails: after the logout button of the main page the record of user A
  is still stored.
\<close>

theorem logout_keeps_user_counterexample:
  "user (app (backToCamera MainPage
     \<lparr>app = \<lparr>currentView = ''main'', user = Some \<lparr>name = ''A'', email = ''a@x.com''\<rparr>\<rparr>,
      mounted = True, message = None, streamRef = None, videoRef = None, live = []\<rparr>)) \<noteq> None"
  by (simp add: backToCamera_def handleBackToCamera_def rerender_def unmount_def renderView_def)

subsection \<open>Face polling\<close>

lemma camera_step_fixed: "rerender CameraInterface (camera_step e w) = camera_step e w"
  by (simp add: camera_step_def rerender_idem)

lemma cleared_tick:
  "interval_at w i = None \<Longrightarrow> rerender CameraInterface w = w \<Longrightarrow>
   camera_step (Tick i now pic) w = w"
  by (simp add: camera_step_def tick_def)

lemma cleared_ticks:
  "interval_at w i = None \<Longrightarrow> rerender CameraInterface w = w \<Longrightarrow>
   camera_run (map (\<lambda>(now, pic). Tick i now pic) ts) w = w"
  by (induction ts) (auto simp: cleared_tick)

lemma settle_unsettled:
  "k < length (requests w) \<Longrightarrow> \<not> settled (requests w ! k) \<Longrightarrow>
   camera_step (Settle k outcome) w =
     rerender CameraInterface
       (faceSettled (req_interval (requests w ! k)) outcome
          (w\<lparr>requests := (requests w)[k := (requests w ! k)\<lparr>settled := True\<rparr>]\<rparr>))"
  by (simp add: camera_step_def settle_def)

lemma rerender_fields [simp]:
  "app (rerender c w) = app w"
  "streamRef (rerender c w) = streamRef w"
  "message (rerender c w) = message w"
  by (simp_all add: rerender_def unmount_def)

lemma rerender_camera_fields [simp]:
  "intervals (rerender c w) = intervals w"
  "requests (rerender c w) = requests w"
  "isProcessing (rerender c w) = isProcessing w"
  "interval_at (rerender c w) i = interval_at w i"
  by (simp_all add: rerender_def unmount_def interval_at_def)

lemma interval_at_cleared: "interval_at (clearInterval i w) i = None"
  by (simp add: interval_at_def clearInterval_def)

lemma faceSettled_success:
  "success d \<Longrightarrow>
   app (faceSettled i (Resolved d) w) = handleLoginSuccess (resp_user d) (app w) \<and>
   interval_at (faceSettled i (Resolved d) w) i = None"
  by (simp add: faceSettled_def setIsProcessing_def onLoginSuccess_def interval_at_def clearInterval_def)

lemma faceSettled_prompt:
  "\<not> success d \<Longrightarrow> action d = Some ''register_prompt'' \<Longrightarrow>
   app (faceSettled i (Resolved d) w) = handleRegisterPrompt (app w) \<and>
   interval_at (faceSettled i (Resolved d) w) i = None"
  by (simp add: faceSettled_def setIsProcessing_def onRegisterPrompt_def interval_at_def clearInterval_def)

text \<open>
  Claim C3. When the POST of a timer settles with \<^verbatim>\<open>success\<close> true, the timer is cleared,
  so that none of its later firings changes anything or issues a POST, and the controller
  is in the \<^verbatim>\<open>main\<close> view storing exactly the \<^verbatim>\<open>user\<close> of the response. When it
  settles with \<^verbatim>\<open>success\<close> false and action \<^verbatim>\<open>register_prompt\<close>, the timer is cleared
  likewise and the controller is in the \<^verbatim>\<open>gesture\<close> view.
\<close>

theorem login_or_prompt_stops_polling:
  assumes "k < length (requests w)" and "\<not> settled (requests w ! k)"
  shows "(success d \<longrightarrow>
            currentView (app (camera_step (Settle k (Resolved d)) w)) = ''main'' \<and>
            user (app (camera_step (Settle k (Resolved d)) w)) = resp_user d \<and>
            interval_at (camera_step (Settle k (Resolved d)) w) (req_interval (requests w ! k)) = None \<and>
            (\<forall>ts. camera_run (map (\<lambda>(now, pic). Tick (req_interval (requests w ! k)) now pic) ts)
                    (camera_step (Settle k (Resolved d)) w)
                  = camera_step (Settle k (Resolved d)) w)) \<and>
         (\<not> success d \<and> action d = Some ''register_prompt'' \<longrightarrow>
            currentView (app (camera_step (Settle k (Resolved d)) w)) = ''gesture'' \<and>
            user (app (camera_step (Settle k (Resolved d)) w)) = user (app w) \<and>
            interval_at (camera_step (Settle k (Resolved d)) w) (req_interval (requests w ! k)) = None \<and>
            (\<forall>ts. camera_run (map (\<lambda>(now, pic). Tick (req_interval (requests w ! k)) now pic) ts)
                    (camera_step (Settle k (Resolved d)) w)
                  = camera_step (Settle k (Resolved d)) w))"
proof (intro conjI impI)
  let ?i = "req_interval (requests w ! k)"
  let ?w' = "camera_step (Settle k (Resolved d)) w"
  note e = settle_unsettled [OF assms, of "Resolved d"]
  {
    assume s: "success d"
    show "currentView (app ?w') = ''main''"
      by (simp add: e faceSettled_success [OF s] handleLoginSuccess_def)
    show "user (app ?w') = resp_user d"
      by (simp add: e faceSettled_success [OF s] handleLoginSuccess_def)
    show c: "interval_at ?w' ?i = None"
      by (simp add: e faceSettled_success [OF s])
    show "\<forall>ts. camera_run (map (\<lambda>(now, pic). Tick ?i now pic) ts) ?w' = ?w'"
      using cleared_ticks [OF c camera_step_fixed] by blast
  }
  {
    assume "\<not> success d \<and> action d = Some ''register_prompt''"
    then have s: "\<not> success d" and a: "action d = Some ''register_prompt''" by simp_all
    show "currentView (app ?w') = ''gesture''"
      by (simp add: e faceSettled_prompt [OF s a] handleRegisterPrompt_def)
    show "user (app ?w') = user (app w)"
      by (simp add: e faceSettled_prompt [OF s a] handleRegisterPrompt_def)
    show c: "interval_at ?w' ?i = None"
      by (simp add: e faceSettled_prompt [OF s a])
    show "\<forall>ts. camera_run (map (\<lambda>(now, pic). Tick ?i now pic) ts) ?w' = ?w'"
      using cleared_ticks [OF c camera_step_fixed] by blast
  }
qed

text \<open>
  The pending POST of the sample camera view settles with user A: the view is
  \<^verbatim>\<open>main\<close>, A is stored, and two more firings of the timer leave the state as it is.
\<close>

theorem login_or_prompt_stops_polling_witness:
  "0 < length (requests polling_camera) \<and>
   \<not> settled (requests polling_camera ! 0) \<and>
   success success_A \<and>
   currentView (app (camera_step (Settle 0 (Resolved success_A)) polling_camera)) = ''main'' \<and>
   user (app (camera_step (Settle 0 (Resolved success_A)) polling_camera)) = Some user_A \<and>
   camera_run [Tick 0 3000 ''b'', Tick 0 4500 ''c''] (camera_step (Settle 0 (Resolved success_A)) polling_camera)
     = camera_step (Settle 0 (Resolved success_A)) polling_camera"
proof -
  have h1: "0 < length (requests polling_camera)" by (simp add: polling_camera_eq)
  have h2: "\<not> settled (requests polling_camera ! 0)" by (simp add: polling_camera_eq)
  have h3: "success success_A" by (simp add: success_A_def)
  have i: "req_interval (requests polling_camera ! 0) = 0" by (simp add: polling_camera_eq)
  have u: "resp_user success_A = Some user_A" by (simp add: success_A_def)
  note T = login_or_prompt_stops_polling [OF h1 h2, of success_A, THEN conjunct1, THEN mp, OF h3]
  from T have a: "currentView (app (camera_step (Settle 0 (Resolved success_A)) polling_camera)) = ''main''"
    and b: "user (app (camera_step (Settle 0 (Resolved success_A)) polling_camera)) = Some user_A"
    by (simp_all add: u)
  from T have "\<forall>ts. camera_run (map (\<lambda>(now, pic). Tick 0 now pic) ts)
                    (camera_step (Settle 0 (Resolved success_A)) polling_camera)
                  = camera_step (Settle 0 (Resolved success_A)) polling_camera"
    by (simp add: i)
  then have "camera_run (map (\<lambda>(now, pic). Tick 0 now pic) [(3000, ''b''), (4500, ''c'')])
                    (camera_step (Settle 0 (Resolved success_A)) polling_camera)
                  = camera_step (Settle 0 (Resolved success_A)) polling_camera"
    by (rule spec)
  then have c: "camera_run [Tick 0 3000 ''b'', Tick 0 4500 ''c'']
       (camera_step (Settle 0 (Resolved success_A)) polling_camera)
     = camera_step (Settle 0 (Resolved success_A)) polling_camera"
    by simp
  from h1 h2 h3 a b c show ?thesis by blast
qed

text \<open>
  Claim C4. In a mounted camera view, a response with \<^verbatim>\<open>success\<close> false and an action
  other than \<^verbatim>\<open>register_prompt\<close> sets \<^verbatim>\<open>isProcessing\<close> to false and the status to the
  message of the response; a failed call sets \<^verbatim>\<open>isProcessing\<close> to false and the status to
  the fixed unavailability message. In both cases every timer is kept, the component stays
  mounted with its video, and the state of \<^verbatim>\<open>App\<close> is untouched.
\<close>

theorem failures_keep_polling:
  assumes "k < length (requests w)" and "\<not> settled (requests w ! k)"
    and "mounted w" and "renderView (currentView (app w)) = CameraInterface"
  shows "(\<not> success d \<and> action d \<noteq> Some ''register_prompt'' \<longrightarrow>
            isProcessing (camera_step (Settle k (Resolved d)) w) = False \<and>
            message (camera_step (Settle k (Resolved d)) w) = resp_message d \<and>
            intervals (camera_step (Settle k (Resolved d)) w) = intervals w \<and>
            app (camera_step (Settle k (Resolved d)) w) = app w \<and>
            mounted (camera_step (Settle k (Resolved d)) w) \<and>
            videoRef (camera_step (Settle k (Resolved d)) w) = videoRef w) \<and>
         isProcessing (camera_step (Settle k Rejected) w) = False \<and>
         message (camera_step (Settle k Rejected) w) = Some service_unavailable_message \<and>
         intervals (camera_step (Settle k Rejected) w) = intervals w \<and>
         app (camera_step (Settle k Rejected) w) = app w \<and>
         mounted (camera_step (Settle k Rejected) w) \<and>
         videoRef (camera_step (Settle k Rejected) w) = videoRef w"
proof -
  have r: "camera_step (Settle k Rejected) w =
      w\<lparr>requests := (requests w)[k := (requests w ! k)\<lparr>settled := True\<rparr>],
        message := Some service_unavailable_message, isProcessing := False\<rparr>"
    using assms(3,4)
    by (simp add: settle_unsettled [OF assms(1,2)] faceSettled_def setIsProcessing_def
        setMessage_def rerender_def)
  have d: "camera_step (Settle k (Resolved d)) w =
      w\<lparr>requests := (requests w)[k := (requests w ! k)\<lparr>settled := True\<rparr>],
        message := resp_message d, isProcessing := False\<rparr>"
    if "\<not> success d" and "action d \<noteq> Some ''register_prompt''"
    using assms(3,4) that
    by (simp add: settle_unsettled [OF assms(1,2)] faceSettled_def setIsProcessing_def
        setMessage_def rerender_def)
  show ?thesis using assms(3) by (simp add: r d)
qed

text \<open>Both outcomes on the pending POST of the sample camera view.\<close>

theorem failures_keep_polling_witness:
  "0 < length (requests polling_camera) \<and>
   \<not> settled (requests polling_camera ! 0) \<and>
   mounted polling_camera \<and>
   renderView (currentView (app polling_camera)) = CameraInterface \<and>
   \<not> success retry_response \<and> action retry_response \<noteq> Some ''register_prompt'' \<and>
   message (camera_step (Settle 0 (Resolved retry_response)) polling_camera) = Some ''No face detected'' \<and>
   intervals (camera_step (Settle 0 (Resolved retry_response)) polling_camera) = intervals polling_camera \<and>
   message (camera_step (Settle 0 Rejected) polling_camera) = Some service_unavailable_message \<and>
   intervals (camera_step (Settle 0 Rejected) polling_camera) = intervals polling_camera"
proof -
  have h1: "0 < length (requests polling_camera)" by (simp add: polling_camera_eq)
  have h2: "\<not> settled (requests polling_camera ! 0)" by (simp add: polling_camera_eq)
  have h3: "mounted polling_camera" by (simp add: polling_camera_eq)
  have h4: "renderView (currentView (app polling_camera)) = CameraInterface"
    by (simp add: polling_camera_eq renderView_def)
  have h5: "\<not> success retry_response \<and> action retry_response \<noteq> Some ''register_prompt''"
    by (simp add: retry_response_def)
  have m: "resp_message retry_response = Some ''No face detected''" by (simp add: retry_response_def)
  from failures_keep_polling [OF h1 h2 h3 h4, of retry_response] h1 h2 h3 h4 h5 m
  show ?thesis by simp
qed

lemma captured_nonempty: "captureFrame pic w = Some img \<Longrightarrow> img \<noteq> []"
  by (auto simp: captureFrame_def split: option.splits if_splits)

lemma unguarded_tick_posts:
  "interval_at w i = Some env \<Longrightarrow> \<not> env_isProcessing env \<Longrightarrow>
   captureFrame pic w = Some img \<Longrightarrow> in_flight i (tick i now pic w) = Suc (in_flight i w)"
  by (frule captured_nonempty)
    (simp add: tick_def faceTick_def in_flight_def unsettled_of_def setIsProcessing_def)

text \<open>
  Claim C1, evaluated. In the sample camera view one POST of timer 0 is pending and
  \<^verbatim>\<open>isProcessing\<close> is true; the timer fires again and a second POST is issued, because the
  guard of the callback reads the \<^verbatim>\<open>isProcessing\<close> of the first render, which is false.
\<close>

theorem stale_guard_lets_requests_overlap:
  "in_flight 0 polling_camera = 1 \<and>
   isProcessing polling_camera = True \<and>
   in_flight 0 (camera_step (Tick 0 3000 ''b'') polling_camera) = 2"
  by (simp add: polling_camera_eq in_flight_def unsettled_of_def camera_step_def tick_def
      faceTick_def interval_at_def captureFrame_def setIsProcessing_def rerender_def renderView_def)

subsection \<open>Gesture decision\<close>

text \<open>
  Claim C7, evaluated. In the sample gesture view the pending POST settles with a detected
  \<^verbatim>\<open>left\<close> gesture: \<^verbatim>\<open>isDetecting\<close> becomes false and \<^verbatim>\<open>onRegistrationStart\<close> is
  scheduled after 2000 ms. The timer fires again before that: it is not cleared and a
  second POST is issued, because its callback reads the \<^verbatim>\<open>isDetecting\<close> of the first
  render, which is true.
\<close>

theorem detected_gesture_does_not_stop_polling:
  "isDetecting (gesture_step (GSettle 0 (Resolved left_response)) polling_gesture) = False \<and>
   timeouts (gesture_step (GSettle 0 (Resolved left_response)) polling_gesture)
     = [\<lparr>handler = OnRegistrationStart, delay = 2000, fired = False\<rparr>] \<and>
   detectionInterval (gesture_step (GTick ''b'')
      (gesture_step (GSettle 0 (Resolved left_response)) polling_gesture)) = True \<and>
   length (grequests polling_gesture) = 1 \<and>
   length (grequests (gesture_step (GTick ''b'')
      (gesture_step (GSettle 0 (Resolved left_response)) polling_gesture))) = 2"
  by (simp add: polling_gesture_eq left_response_def gesture_step_def gsettle_def
      gestureSettled_def gtick_def gestureTick_def captureFrame_def setMessage_def
      setIsDetecting_def setGestureDetected_def setTimeout_def rerender_def renderView_def Let_def)

lemma gesture_step_fixed: "rerender GestureInterface (gesture_step e w) = gesture_step e w"
  by (simp add: gesture_step_def rerender_idem)

lemma rerender_gesture_fields [simp]:
  "isDetecting (rerender c w) = isDetecting w"
  "timeouts (rerender c w) = timeouts w"
  by (simp_all add: rerender_def unmount_def)

lemma disabled_clicks:
  "\<not> manual_buttons_enabled w \<Longrightarrow> rerender GestureInterface w = w \<Longrightarrow>
   gesture_step ClickYes w = w \<and> gesture_step ClickNo w = w"
  by (simp add: gesture_step_def)

lemma not_enabled: "\<not> isDetecting w \<Longrightarrow> \<not> manual_buttons_enabled w"
  by (simp add: manual_buttons_enabled_def)

text \<open>
  Claim C8, as the code has it. The manual buttons are enabled exactly while the component
  is mounted and \<^verbatim>\<open>isDetecting\<close> is true, as it is from the mount on. Pressing either
  enabled button sets \<^verbatim>\<open>isDetecting\<close> to false, which disables both buttons, and
  schedules the corresponding callback after 1500 ms; the state of \<^verbatim>\<open>App\<close> is not
  changed by the click. A click on a disabled button does nothing.
\<close>

theorem manual_buttons_schedule_outcome:
  assumes "manual_buttons_enabled w"
  shows "manual_buttons_enabled (mountGesture a ls) \<and>
         isDetecting (gesture_step ClickYes w) = False \<and>
         manual_buttons_enabled (gesture_step ClickYes w) = False \<and>
         timeouts (gesture_step ClickYes w)
           = timeouts w @ [\<lparr>handler = OnRegistrationStart, delay = 1500, fired = False\<rparr>] \<and>
         app (gesture_step ClickYes w) = app w \<and>
         gesture_step ClickYes (gesture_step ClickYes w) = gesture_step ClickYes w \<and>
         gesture_step ClickNo (gesture_step ClickYes w) = gesture_step ClickYes w \<and>
         isDetecting (gesture_step ClickNo w) = False \<and>
         manual_buttons_enabled (gesture_step ClickNo w) = False \<and>
         timeouts (gesture_step ClickNo w)
           = timeouts w @ [\<lparr>handler = OnGuestAccess, delay = 1500, fired = False\<rparr>] \<and>
         app (gesture_step ClickNo w) = app w \<and>
         gesture_step ClickYes (gesture_step ClickNo w) = gesture_step ClickNo w \<and>
         gesture_step ClickNo (gesture_step ClickNo w) = gesture_step ClickNo w"
proof -
  from assms have m: "mounted w" and d: "isDetecting w"
    by (simp_all add: manual_buttons_enabled_def split: if_splits)
  have y: "gesture_step ClickYes w = rerender GestureInterface (handleManualYes w)"
    using assms by (simp add: gesture_step_def)
  have n: "gesture_step ClickNo w = rerender GestureInterface (handleManualNo w)"
    using assms by (simp add: gesture_step_def)
  have y1: "isDetecting (gesture_step ClickYes w) = False"
    using m by (simp add: y handleManualYes_def setTimeout_def setMessage_def
        setGestureDetected_def setIsDetecting_def)
  have n1: "isDetecting (gesture_step ClickNo w) = False"
    using m by (simp add: n handleManualNo_def setTimeout_def setMessage_def
        setGestureDetected_def setIsDetecting_def)
  have y2: "\<not> manual_buttons_enabled (gesture_step ClickYes w)" using y1 by (simp add: not_enabled)
  have n2: "\<not> manual_buttons_enabled (gesture_step ClickNo w)" using n1 by (simp add: not_enabled)
  have y3: "timeouts (gesture_step ClickYes w)
           = timeouts w @ [\<lparr>handler = OnRegistrationStart, delay = 1500, fired = False\<rparr>]"
    by (simp add: y handleManualYes_def setTimeout_def setMessage_def
        setGestureDetected_def setIsDetecting_def)
  have n3: "timeouts (gesture_step ClickNo w)
           = timeouts w @ [\<lparr>handler = OnGuestAccess, delay = 1500, fired = False\<rparr>]"
    by (simp add: n handleManualNo_def setTimeout_def setMessage_def
        setGestureDetected_def setIsDetecting_def)
  have y4: "app (gesture_step ClickYes w) = app w"
    by (simp add: y handleManualYes_def setTimeout_def setMessage_def
        setGestureDetected_def setIsDetecting_def)
  have n4: "app (gesture_step ClickNo w) = app w"
    by (simp add: n handleManualNo_def setTimeout_def setMessage_def
        setGestureDetected_def setIsDetecting_def)
  have e: "manual_buttons_enabled (mountGesture a ls)"
    by (simp add: manual_buttons_enabled_def mountGesture_def)
  note y5 = disabled_clicks [OF y2 gesture_step_fixed]
  note n5 = disabled_clicks [OF n2 gesture_step_fixed]
  show ?thesis using e y1 y2 y3 y4 y5 n1 n2 n3 n4 n5 by simp
qed

text \<open>The No button in the sample gesture view.\<close>

theorem manual_buttons_schedule_outcome_witness:
  "manual_buttons_enabled polling_gesture \<and>
   manual_buttons_enabled (gesture_step ClickNo polling_gesture) = False \<and>
   timeouts (gesture_step ClickNo polling_gesture)
     = [\<lparr>handler = OnGuestAccess, delay = 1500, fired = False\<rparr>] \<and>
   gesture_step ClickYes (gesture_step ClickNo polling_gesture) = gesture_step ClickNo polling_gesture"
proof -
  have h: "manual_buttons_enabled polling_gesture"
    by (simp add: polling_gesture_eq manual_buttons_enabled_def)
  have t: "timeouts polling_gesture = []" by (simp add: polling_gesture_eq)
  from manual_buttons_schedule_outcome [OF h] h t show ?thesis by simp
qed

text \<open>
  Claim C8 as stated fails: the Yes button emits nothing at the click; the view is still
  \<^verbatim>\<open>gesture\<close> and \<^verbatim>\<open>onRegistrationStart\<close> waits in a timeout of 1500 ms.
\<close>

theorem manual_choice_is_delayed_counterexample:
  "manual_buttons_enabled polling_gesture \<and>
   currentView (app (gesture_step ClickYes polling_gesture)) \<noteq> ''register'' \<and>
   app (gesture_step ClickYes polling_gesture) = app polling_gesture \<and>
   timeouts (gesture_step ClickYes polling_gesture)
     = [\<lparr>handler = OnRegistrationStart, delay = 1500, fired = False\<rparr>]"
  by (simp add: polling_gesture_eq gesture_step_def manual_buttons_enabled_def handleManualYes_def
      setMessage_def setIsDetecting_def setGestureDetected_def setTimeout_def rerender_def
      renderView_def)

subsection \<open>Calls that settle after a stop\<close>

lemma list_update_None_swap: "xs[i := None, j := None] = xs[j := None, i := None]"
  by (cases "i = j") (simp_all add: list_update_swap)

text \<open>
  Claim C5, as the code has it. Neither engine discards a call that was issued before a
  stop. The continuation of a POST does the same whether or not the timer has been cleared
  or \<^verbatim>\<open>isDetecting\<close> set to false in between, and after an unmount it still changes the
  state of \<^verbatim>\<open>App\<close>, clears timers and schedules timeouts as it would have done on the
  mounted component.
\<close>

theorem stop_does_not_discard_outcomes:
  "faceSettled i outcome (clearInterval j w) = clearInterval j (faceSettled i outcome w) \<and>
   app (faceSettled i outcome (unmount w)) = app (faceSettled i outcome w) \<and>
   intervals (faceSettled i outcome (unmount w)) = intervals (faceSettled i outcome w) \<and>
   gestureSettled env gout (setIsDetecting False g) = setIsDetecting False (gestureSettled env gout g) \<and>
   gestureSettled env gout (g\<lparr>detectionInterval := False\<rparr>)
     = (gestureSettled env gout g)\<lparr>detectionInterval := False\<rparr> \<and>
   timeouts (gestureSettled env gout (unmount g)) = timeouts (gestureSettled env gout g) \<and>
   app (gestureSettled env gout (unmount g)) = app (gestureSettled env gout g)"
proof (intro conjI)
  show "faceSettled i outcome (clearInterval j w) = clearInterval j (faceSettled i outcome w)"
    by (cases outcome)
      (simp_all add: faceSettled_def clearInterval_def setIsProcessing_def setMessage_def
        onLoginSuccess_def onRegisterPrompt_def list_update_None_swap)
  show "app (faceSettled i outcome (unmount w)) = app (faceSettled i outcome w)"
    by (cases outcome)
      (simp_all add: faceSettled_def clearInterval_def setIsProcessing_def setMessage_def
        onLoginSuccess_def onRegisterPrompt_def unmount_def)
  show "intervals (faceSettled i outcome (unmount w)) = intervals (faceSettled i outcome w)"
    by (cases outcome)
      (simp_all add: faceSettled_def clearInterval_def setIsProcessing_def setMessage_def
        onLoginSuccess_def onRegisterPrompt_def unmount_def)
  show "gestureSettled env gout (setIsDetecting False g) = setIsDetecting False (gestureSettled env gout g)"
    by (cases gout)
      (simp_all add: gestureSettled_def setIsDetecting_def setMessage_def setGestureDetected_def
        setTimeout_def Let_def)
  show "gestureSettled env gout (g\<lparr>detectionInterval := False\<rparr>)
     = (gestureSettled env gout g)\<lparr>detectionInterval := False\<rparr>"
    by (cases gout)
      (simp_all add: gestureSettled_def setIsDetecting_def setMessage_def setGestureDetected_def
        setTimeout_def Let_def)
  show "timeouts (gestureSettled env gout (unmount g)) = timeouts (gestureSettled env gout g)"
    by (cases gout)
      (simp_all add: gestureSettled_def setIsDetecting_def setMessage_def setGestureDetected_def
        setTimeout_def Let_def unmount_def)
  show "app (gestureSettled env gout (unmount g)) = app (gestureSettled env gout g)"
    by (cases gout)
      (simp_all add: gestureSettled_def setIsDetecting_def setMessage_def setGestureDetected_def
        setTimeout_def Let_def unmount_def)
qed

text \<open>
  Claim C5 as stated fails. In the sample gesture view the No button is pressed while the
  POST is pending; the POST then settles with a \<^verbatim>\<open>left\<close> gesture, which changes the
  status message, schedules \<^verbatim>\<open>onRegistrationStart\<close> and, once both timeouts have fired,
  leaves the controller in the \<^verbatim>\<open>register\<close> view. In the sample camera view the user
  moves to the head pose view, which unmounts the camera view, and the pending POST then
  settles with user A: the controller is moved to the \<^verbatim>\<open>main\<close> view with A stored.
\<close>

theorem settled_call_applied_after_stop_counterexample:
  "message (gesture_run [ClickNo, GSettle 0 (Resolved left_response)] polling_gesture)
     \<noteq> message (gesture_run [ClickNo] polling_gesture) \<and>
   timeouts (gesture_run [ClickNo, GSettle 0 (Resolved left_response)] polling_gesture)
     \<noteq> timeouts (gesture_run [ClickNo] polling_gesture) \<and>
   currentView (app (gesture_run [ClickNo, GSettle 0 (Resolved left_response), Timeout 0, Timeout 1]
     polling_gesture)) = ''register'' \<and>
   mounted (camera_run [SetCurrentView ''health''] polling_camera) = False \<and>
   app (camera_run [SetCurrentView ''health'', Settle 0 (Resolved success_A)] polling_camera)
     = \<lparr>currentView = ''main'', user = Some user_A\<rparr>"
  apply (intro conjI)
  subgoal by (simp add: polling_gesture_eq left_response_def gesture_step_def gsettle_def
      gestureSettled_def manual_buttons_enabled_def handleManualNo_def setMessage_def
      setIsDetecting_def setGestureDetected_def setTimeout_def rerender_def renderView_def Let_def
      yes_detected_message_def no_selected_message_def emoji_check_def emoji_cross_def)
  subgoal by (simp add: polling_gesture_eq left_response_def gesture_step_def gsettle_def
      gestureSettled_def manual_buttons_enabled_def handleManualNo_def setMessage_def
      setIsDetecting_def setGestureDetected_def setTimeout_def rerender_def renderView_def Let_def)
  subgoal by (simp add: polling_gesture_eq left_response_def gesture_step_def gsettle_def
      gestureSettled_def manual_buttons_enabled_def handleManualNo_def setMessage_def
      setIsDetecting_def setGestureDetected_def setTimeout_def rerender_def renderView_def Let_def
      fireTimeout_def run_callback_def handleGuestAccess_def onRegistrationStart_def unmount_def
      stopTracks_def)
  subgoal by (simp add: polling_camera_eq camera_step_def setCurrentView_def rerender_def
      renderView_def unmount_def)
  subgoal by (simp add: polling_camera_eq success_A_def camera_step_def setCurrentView_def
      rerender_def renderView_def unmount_def stopTracks_def settle_def faceSettled_def
      onLoginSuccess_def handleLoginSuccess_def clearInterval_def setIsProcessing_def)
  done

end
